theory Spec2Isabelle
  imports Complex_Main
begin

section \<open>JavaScript values\<close>

text \<open>
  The values a caller can hand to the constructor or to a setter. A number is a finite
  rational (every finite double is one; the sign of zero is not kept, and the setters do
  not look at it), \<open>NaN\<close> or one of the two infinities. An object is the list of its own
  properties (of two entries with one name, the first is the property); an array is the
  list of its elements, a hole being \<open>JUndefined\<close>. The module never changes an array or
  an object in place, so arrays and objects are modelled as values, without identity.
  A caller can change an array in place, and the four arrays of \<open>DEFAULT_BIOM\<close> are
  shared by every instance built with defaults; the section on the default arrays models
  these four by reference.
\<close>

datatype jsnum = Finite rat | NaN | Infinity | NegInfinity

datatype jsval =
    JUndefined
  | JNull
  | JBoolean bool
  | JNumber jsnum
  | JString string
  | JArray "jsval list"
  | JObject "(string \<times> jsval) list"

text \<open>The operator \<open>typeof\<close>.\<close>

fun typeof :: "jsval \<Rightarrow> string" where
  "typeof JUndefined = ''undefined''"
| "typeof JNull = ''object''"
| "typeof (JBoolean b) = ''boolean''"
| "typeof (JNumber n) = ''number''"
| "typeof (JString s) = ''string''"
| "typeof (JArray xs) = ''object''"
| "typeof (JObject ps) = ''object''"

text \<open>\<open>Object.prototype.toString.call(v)\<close>.\<close>

fun toString_call :: "jsval \<Rightarrow> string" where
  "toString_call JUndefined = ''[object Undefined]''"
| "toString_call JNull = ''[object Null]''"
| "toString_call (JBoolean b) = ''[object Boolean]''"
| "toString_call (JNumber n) = ''[object Number]''"
| "toString_call (JString s) = ''[object String]''"
| "toString_call (JArray xs) = ''[object Array]''"
| "toString_call (JObject ps) = ''[object Object]''"

text \<open>
  \<open>Number.isInteger(v)\<close>: false for everything that is not a number, for \<open>NaN\<close> and for
  the infinities; true for a finite number equal to its floor.
\<close>

fun Number_isInteger :: "jsval \<Rightarrow> bool" where
  "Number_isInteger (JNumber (Finite r)) = (of_int \<lfloor>r\<rfloor> = r)"
| "Number_isInteger v = False"

text \<open>
  \<open>v < 0\<close>. The shape setter evaluates it only after \<open>Number.isInteger(v)\<close> held
  (\<open>||\<close> short-circuits), so only the number cases are ever reached; the coercion of the
  other values to numbers is not modelled.
\<close>

fun lt_zero :: "jsval \<Rightarrow> bool" where
  "lt_zero (JNumber (Finite r)) = (r < 0)"
| "lt_zero (JNumber NegInfinity) = True"
| "lt_zero v = False"

text \<open>\<open>v.length\<close> and \<open>v[i]\<close> of an array; reading past the end gives \<open>undefined\<close>.\<close>

fun elements :: "jsval \<Rightarrow> jsval list" where
  "elements (JArray xs) = xs"
| "elements v = []"

definition js_length :: "jsval \<Rightarrow> nat" where
  "js_length v = length (elements v)"

definition js_index :: "jsval \<Rightarrow> nat \<Rightarrow> jsval" where
  "js_index v i = (if i < length (elements v) then elements v ! i else JUndefined)"

text \<open>
  \<open>xs.indexOf(x)\<close>: the position of the first element strictly equal to \<open>x\<close>, or \<open>-1\<close>.
  The vocabularies hold strings only, on which strict equality is equality of values.
\<close>

fun indexOf :: "'a list \<Rightarrow> 'a \<Rightarrow> int" where
  "indexOf [] x = - 1"
| "indexOf (y # ys) x =
     (if y = x then 0 else (let i = indexOf ys x in if i = - 1 then - 1 else i + 1))"

text \<open>
  Reading a property: an own property of an object, \<open>undefined\<close> when there is none.
  None of the thirteen option names is a property of a primitive or of an array.
\<close>

fun get_prop :: "jsval \<Rightarrow> string \<Rightarrow> jsval" where
  "get_prop (JObject ps) k = (case map_of ps k of Some v \<Rightarrow> v | None \<Rightarrow> JUndefined)"
| "get_prop v k = JUndefined"

text \<open>A default in a parameter or in a destructuring pattern replaces \<open>undefined\<close> only.\<close>

definition dflt :: "jsval \<Rightarrow> jsval \<Rightarrow> jsval" where
  "dflt v d = (if v = JUndefined then d else v)"

section \<open>Constants of the module\<close>

definition VERSION :: string where
  "VERSION = ''0.1.0''"

text \<open>
  The exported object \<open>DEFAULT_BIOM\<close> as it is when the module is loaded. Its \<open>rows\<close>,
  \<open>columns\<close>, \<open>shape\<close> and \<open>data\<close> are array objects of its own, written here with the
  elements they have at that moment.
\<close>

definition DEFAULT_BIOM :: jsval where
  "DEFAULT_BIOM = JObject
     [(''id'', JNull),
      (''format'', JString ''Biological Observation Matrix 1.0.0''),
      (''format_url'', JString ''http://biom-format.org''),
      (''type'', JString ''OTU table''),
      (''generated_by'', JString (''biojs-io-biom v'' @ VERSION)),
      (''date'', JNull),
      (''rows'', JArray []),
      (''columns'', JArray []),
      (''matrix_type'', JString ''sparse''),
      (''matrix_element_type'', JString ''float''),
      (''shape'', JArray [JNumber (Finite 0), JNumber (Finite 0)]),
      (''data'', JArray []),
      (''comment'', JNull)]"

text \<open>The older version of the module has the same table without the entry \<open>comment\<close>.\<close>

definition DEFAULT_BIOM_2 :: jsval where
  "DEFAULT_BIOM_2 = JObject
     [(''id'', JNull),
      (''format'', JString ''Biological Observation Matrix 1.0.0''),
      (''format_url'', JString ''http://biom-format.org''),
      (''type'', JString ''OTU table''),
      (''generated_by'', JString (''biojs-io-biom v'' @ VERSION)),
      (''date'', JNull),
      (''rows'', JArray []),
      (''columns'', JArray []),
      (''matrix_type'', JString ''sparse''),
      (''matrix_element_type'', JString ''float''),
      (''shape'', JArray [JNumber (Finite 0), JNumber (Finite 0)]),
      (''data'', JArray [])]"

definition TYPE_CV :: "jsval list" where
  "TYPE_CV =
     [JString ''OTU table'',
      JString ''Pathway table'',
      JString ''Function table'',
      JString ''Ortholog table'',
      JString ''Gene table'',
      JString ''Metabolite table'',
      JString ''Taxon table'']"

definition MATRIX_TYPE_CV :: "jsval list" where
  "MATRIX_TYPE_CV = [JString ''sparse'', JString ''dense'']"

definition MATRIX_ELEMENT_TYPE_CV :: "jsval list" where
  "MATRIX_ELEMENT_TYPE_CV = [JString ''int'', JString ''float'', JString ''unicode'']"

section \<open>The class Biom\<close>

text \<open>
  An instance holds the thirteen backing properties \<open>_id\<close>, \<open>_format\<close>, ... (here
  \<open>p_id\<close>, \<open>p_format\<close>, ...). A property that was never written reads \<open>undefined\<close>.
\<close>

record biom =
  p_id :: jsval
  p_format :: jsval
  p_format_url :: jsval
  p_type :: jsval
  p_generated_by :: jsval
  p_date :: jsval
  p_rows :: jsval
  p_columns :: jsval
  p_matrix_type :: jsval
  p_matrix_element_type :: jsval
  p_shape :: jsval
  p_data :: jsval
  p_comment :: jsval

definition fresh :: biom where
  "fresh = \<lparr>p_id = JUndefined, p_format = JUndefined, p_format_url = JUndefined,
     p_type = JUndefined, p_generated_by = JUndefined, p_date = JUndefined,
     p_rows = JUndefined, p_columns = JUndefined, p_matrix_type = JUndefined,
     p_matrix_element_type = JUndefined, p_shape = JUndefined, p_data = JUndefined,
     p_comment = JUndefined\<rparr>"

text \<open>The two exception classes the module throws, each with its message.\<close>

datatype exn = TypeError string | Error string

text \<open>
  A setter takes the assigned value and the instance, and returns the exception it
  throws, if any, with the instance as the call leaves it.
\<close>

type_synonym setter = "jsval \<Rightarrow> biom \<Rightarrow> exn option \<times> biom"

definition set_id :: setter where
  "set_id v b =
     (if v \<noteq> JNull \<and> typeof v \<noteq> ''string''
      then (Some (TypeError ''id must be string or null''), b)
      else (None, b\<lparr>p_id := v\<rparr>))"

definition set_format :: setter where
  "set_format v b =
     (if typeof v \<noteq> ''string''
      then (Some (TypeError ''format must be string''), b)
      else (None, b\<lparr>p_format := v\<rparr>))"

definition set_format_url :: setter where
  "set_format_url v b =
     (if typeof v \<noteq> ''string''
      then (Some (TypeError (''format_url must be string'' @
                             '' (representing a static URL)'')), b)
      else (None, b\<lparr>p_format_url := v\<rparr>))"

definition set_type :: setter where
  "set_type v b =
     (if typeof v \<noteq> ''string''
      then (Some (TypeError (''type must be string'' @
                             '' (part of the controlled vocabulary)'')), b)
      else if indexOf TYPE_CV v = - 1
      then (Some (Error ''type must be part of the controlled vocabulary''), b)
      else (None, b\<lparr>p_type := v\<rparr>))"

definition set_generated_by :: setter where
  "set_generated_by v b =
     (if typeof v \<noteq> ''string''
      then (Some (TypeError ''generated_by must be string''), b)
      else (None, b\<lparr>p_generated_by := v\<rparr>))"

definition set_date :: setter where
  "set_date v b =
     (if typeof v \<noteq> ''string''
      then (Some (TypeError ''date must be string (ISO 8601 format)''), b)
      else (None, b\<lparr>p_date := v\<rparr>))"

definition set_rows :: setter where
  "set_rows v b =
     (if toString_call v \<noteq> ''[object Array]''
      then (Some (TypeError ''rows must be an Array''), b)
      else (None, b\<lparr>p_rows := v\<rparr>))"

definition set_columns :: setter where
  "set_columns v b =
     (if toString_call v \<noteq> ''[object Array]''
      then (Some (TypeError ''columns must be an Array''), b)
      else (None, b\<lparr>p_columns := v\<rparr>))"

definition set_matrix_type :: setter where
  \<open>set_matrix_type v b =
     (if typeof v \<noteq> ''string''
      then (Some (TypeError (''matrix_type must be string'' @
               '' (part of the controlled vocabulary: "dense" or "sparse")'')), b)
      else if indexOf MATRIX_TYPE_CV v = - 1
      then (Some (Error (''matrix_type must be part of the'' @
               '' controlled vocabulary: "dense" or "sparse"'')), b)
      else (None, b\<lparr>p_matrix_type := v\<rparr>))\<close>

definition set_matrix_element_type :: setter where
  \<open>set_matrix_element_type v b =
     (if typeof v \<noteq> ''string''
      then (Some (TypeError (''matrix_element_type must be string'' @
               '' (part of the controlled vocabulary:'' @
               '' "int", "float" or "unicode")'')), b)
      else if indexOf MATRIX_ELEMENT_TYPE_CV v = - 1
      then (Some (Error (''matrix_element_type must be part of the'' @
               '' controlled vocabulary: "int", "float" or "unicode"'')), b)
      else (None, b\<lparr>p_matrix_element_type := v\<rparr>))\<close>

definition set_shape :: setter where
  "set_shape v b =
     (if toString_call v \<noteq> ''[object Array]''
      then (Some (TypeError (''shape must be an Array containing'' @
                             '' exactly two non-negative integers'')), b)
      else if js_length v \<noteq> 2
      then (Some (Error ''shape does not contain exactly two elements''), b)
      else if \<not> Number_isInteger (js_index v 0) \<or> lt_zero (js_index v 0) \<or>
              \<not> Number_isInteger (js_index v 1) \<or> lt_zero (js_index v 1)
      then (Some (Error ''shape does not contain non-negative integers''), b)
      else (None, b\<lparr>p_shape := v\<rparr>))"

definition set_data :: setter where
  "set_data v b =
     (if toString_call v \<noteq> ''[object Array]''
      then (Some (TypeError ''data must be an Array''), b)
      else (None, b\<lparr>p_data := v\<rparr>))"

definition set_comment :: setter where
  "set_comment v b =
     (if v \<noteq> JNull \<and> typeof v \<noteq> ''string''
      then (Some (TypeError ''comment must be string or null''), b)
      else (None, b\<lparr>p_comment := v\<rparr>))"

text \<open>The thirteen accessor properties of the class.\<close>

datatype field =
    Id | Format | Format_url | Type | Generated_by | Date | Rows | Columns
  | Matrix_type | Matrix_element_type | Shape | Data | Comment

fun field_name :: "field \<Rightarrow> string" where
  "field_name Id = ''id''"
| "field_name Format = ''format''"
| "field_name Format_url = ''format_url''"
| "field_name Type = ''type''"
| "field_name Generated_by = ''generated_by''"
| "field_name Date = ''date''"
| "field_name Rows = ''rows''"
| "field_name Columns = ''columns''"
| "field_name Matrix_type = ''matrix_type''"
| "field_name Matrix_element_type = ''matrix_element_type''"
| "field_name Shape = ''shape''"
| "field_name Data = ''data''"
| "field_name Comment = ''comment''"

text \<open>Reading \<open>b.f\<close> runs the getter of \<open>f\<close>, which returns the backing property.\<close>

fun getter :: "field \<Rightarrow> biom \<Rightarrow> jsval" where
  "getter Id b = p_id b"
| "getter Format b = p_format b"
| "getter Format_url b = p_format_url b"
| "getter Type b = p_type b"
| "getter Generated_by b = p_generated_by b"
| "getter Date b = p_date b"
| "getter Rows b = p_rows b"
| "getter Columns b = p_columns b"
| "getter Matrix_type b = p_matrix_type b"
| "getter Matrix_element_type b = p_matrix_element_type b"
| "getter Shape b = p_shape b"
| "getter Data b = p_data b"
| "getter Comment b = p_comment b"

text \<open>The assignment \<open>b.f = v\<close> runs the setter of \<open>f\<close>.\<close>

fun assign :: "field \<Rightarrow> setter" where
  "assign Id = set_id"
| "assign Format = set_format"
| "assign Format_url = set_format_url"
| "assign Type = set_type"
| "assign Generated_by = set_generated_by"
| "assign Date = set_date"
| "assign Rows = set_rows"
| "assign Columns = set_columns"
| "assign Matrix_type = set_matrix_type"
| "assign Matrix_element_type = set_matrix_element_type"
| "assign Shape = set_shape"
| "assign Data = set_data"
| "assign Comment = set_comment"

text \<open>
  Statements in sequence: the first exception ends the run, and the instance stays as
  the throwing statement left it.
\<close>

fun run :: "(biom \<Rightarrow> exn option \<times> biom) list \<Rightarrow> biom \<Rightarrow> exn option \<times> biom" where
  "run [] b = (None, b)"
| "run (s # ss) b = (case s b of (Some e, b') \<Rightarrow> (Some e, b') | (None, b') \<Rightarrow> run ss b')"

text \<open>
  The clock of the runtime, read by the constructors: \<open>Date.now()\<close> (milliseconds since
  the epoch) and \<open>new Date().toISOString()\<close> (the same instant as an ISO 8601 string).
\<close>

record clock =
  Date_now :: int
  Date_toISOString :: string

text \<open>
  Destructuring \<open>null\<close> throws a \<open>TypeError\<close> before the body runs; the text of its
  message is the engine's.
\<close>

definition destructure_null :: exn where
  "destructure_null = TypeError ''Cannot destructure null''"

subsection \<open>The constructor of the current version\<close>

text \<open>
  The body assigns every option through its setter, in this order. The parameter
  defaults to \<open>{}\<close>, each option to its default; a \<open>date\<close> of \<open>null\<close> becomes the
  current time. The defaults are read from \<open>DEFAULT_BIOM\<close> as loaded, which is what the
  call finds as long as no caller has changed the default arrays in place.
\<close>

definition constructor_1 :: "clock \<Rightarrow> jsval \<Rightarrow> biom \<Rightarrow> exn option \<times> biom" where
  "constructor_1 clk cfg this =
     (let a_id = dflt (get_prop cfg ''id'') JNull;
          a_format = dflt (get_prop cfg ''format'') (get_prop DEFAULT_BIOM ''format'');
          a_format_url = dflt (get_prop cfg ''format_url'') (get_prop DEFAULT_BIOM ''format_url'');
          a_type = dflt (get_prop cfg ''type'') (get_prop DEFAULT_BIOM ''type'');
          a_generated_by =
            dflt (get_prop cfg ''generated_by'') (get_prop DEFAULT_BIOM ''generated_by'');
          a_date = dflt (get_prop cfg ''date'') JNull;
          a_rows = dflt (get_prop cfg ''rows'') (get_prop DEFAULT_BIOM ''rows'');
          a_columns = dflt (get_prop cfg ''columns'') (get_prop DEFAULT_BIOM ''columns'');
          a_matrix_type =
            dflt (get_prop cfg ''matrix_type'') (get_prop DEFAULT_BIOM ''matrix_type'');
          a_matrix_element_type =
            dflt (get_prop cfg ''matrix_element_type'')
                 (get_prop DEFAULT_BIOM ''matrix_element_type'');
          a_shape = dflt (get_prop cfg ''shape'') (get_prop DEFAULT_BIOM ''shape'');
          a_data = dflt (get_prop cfg ''data'') (get_prop DEFAULT_BIOM ''data'');
          a_comment = dflt (get_prop cfg ''comment'') (get_prop DEFAULT_BIOM ''comment'')
      in run
        [set_id a_id,
         set_format a_format,
         set_format_url a_format_url,
         set_type a_type,
         set_generated_by a_generated_by,
         set_date (if a_date = JNull then JString (Date_toISOString clk) else a_date),
         set_rows a_rows,
         set_columns a_columns,
         set_matrix_type a_matrix_type,
         set_matrix_element_type a_matrix_element_type,
         set_shape a_shape,
         set_data a_data,
         set_comment a_comment] this)"

text \<open>
  \<open>new Biom(arg)\<close>: the instance when the constructor returns, the exception when it
  throws (then there is no instance).
\<close>

definition new_Biom_1 :: "clock \<Rightarrow> jsval \<Rightarrow> exn + biom" where
  "new_Biom_1 clk arg =
     (let cfg = dflt arg (JObject [])
      in if cfg = JNull then Inl destructure_null
         else (case constructor_1 clk cfg fresh of
                 (Some e, b) \<Rightarrow> Inl e
               | (None, b) \<Rightarrow> Inr b))"

subsection \<open>The constructor of the older version\<close>

text \<open>
  The older version writes the backing properties directly, without the setters; its
  default for \<open>date\<close> is \<open>Date.now()\<close>, a number, and it has no option \<open>comment\<close>. Of the
  setters it has \<open>set id\<close> only, with the body of \<open>set_id\<close> above.
\<close>

definition constructor_2 :: "clock \<Rightarrow> jsval \<Rightarrow> biom \<Rightarrow> exn option \<times> biom" where
  "constructor_2 clk cfg this =
     (let a_id = dflt (get_prop cfg ''id'') JNull;
          a_format = dflt (get_prop cfg ''format'') (get_prop DEFAULT_BIOM_2 ''format'');
          a_format_url =
            dflt (get_prop cfg ''format_url'') (get_prop DEFAULT_BIOM_2 ''format_url'');
          a_type = dflt (get_prop cfg ''type'') (get_prop DEFAULT_BIOM_2 ''type'');
          a_generated_by =
            dflt (get_prop cfg ''generated_by'') (get_prop DEFAULT_BIOM_2 ''generated_by'');
          a_date = dflt (get_prop cfg ''date'') (JNumber (Finite (of_int (Date_now clk))));
          a_rows = dflt (get_prop cfg ''rows'') (get_prop DEFAULT_BIOM_2 ''rows'');
          a_columns = dflt (get_prop cfg ''columns'') (get_prop DEFAULT_BIOM_2 ''columns'');
          a_matrix_type =
            dflt (get_prop cfg ''matrix_type'') (get_prop DEFAULT_BIOM_2 ''matrix_type'');
          a_matrix_element_type =
            dflt (get_prop cfg ''matrix_element_type'')
                 (get_prop DEFAULT_BIOM_2 ''matrix_element_type'');
          a_shape = dflt (get_prop cfg ''shape'') (get_prop DEFAULT_BIOM_2 ''shape'');
          a_data = dflt (get_prop cfg ''data'') (get_prop DEFAULT_BIOM_2 ''data'')
      in (None, this\<lparr>p_id := a_id, p_format := a_format, p_format_url := a_format_url,
            p_type := a_type, p_generated_by := a_generated_by, p_date := a_date,
            p_rows := a_rows, p_columns := a_columns, p_matrix_type := a_matrix_type,
            p_matrix_element_type := a_matrix_element_type, p_shape := a_shape,
            p_data := a_data\<rparr>))"

definition new_Biom_2 :: "clock \<Rightarrow> jsval \<Rightarrow> exn + biom" where
  "new_Biom_2 clk arg =
     (let cfg = dflt arg (JObject [])
      in if cfg = JNull then Inl destructure_null
         else (case constructor_2 clk cfg fresh of
                 (Some e, b) \<Rightarrow> Inl e
               | (None, b) \<Rightarrow> Inr b))"

subsection \<open>Sequences of assignments\<close>

text \<open>
  A caller's assignments after construction, one after the other; a caller that catches
  the exception of a failed assignment goes on with the instance as the setter left it.
\<close>

fun assignments :: "(field \<times> jsval) list \<Rightarrow> biom \<Rightarrow> biom" where
  "assignments [] b = b"
| "assignments ((f, v) # ops) b = assignments ops (snd (assign f v b))"

section \<open>Notions used by the properties\<close>

text \<open>
  The validator of a field is the check its setter makes: the exception the setter
  throws for a value, \<open>None\<close> when it accepts the value. It is read off an instance
  without properties; \<open>validator_state\<close> below shows that the instance does not matter.
\<close>

definition validator :: "field \<Rightarrow> jsval \<Rightarrow> exn option" where
  "validator f v = fst (assign f v fresh)"

text \<open>Writing the backing property of a field.\<close>

fun store :: "field \<Rightarrow> jsval \<Rightarrow> biom \<Rightarrow> biom" where
  "store Id v b = b\<lparr>p_id := v\<rparr>"
| "store Format v b = b\<lparr>p_format := v\<rparr>"
| "store Format_url v b = b\<lparr>p_format_url := v\<rparr>"
| "store Type v b = b\<lparr>p_type := v\<rparr>"
| "store Generated_by v b = b\<lparr>p_generated_by := v\<rparr>"
| "store Date v b = b\<lparr>p_date := v\<rparr>"
| "store Rows v b = b\<lparr>p_rows := v\<rparr>"
| "store Columns v b = b\<lparr>p_columns := v\<rparr>"
| "store Matrix_type v b = b\<lparr>p_matrix_type := v\<rparr>"
| "store Matrix_element_type v b = b\<lparr>p_matrix_element_type := v\<rparr>"
| "store Shape v b = b\<lparr>p_shape := v\<rparr>"
| "store Data v b = b\<lparr>p_data := v\<rparr>"
| "store Comment v b = b\<lparr>p_comment := v\<rparr>"

text \<open>The fields in the order in which the constructor assigns them.\<close>

definition field_order :: "field list" where
  "field_order = [Id, Format, Format_url, Type, Generated_by, Date, Rows, Columns,
     Matrix_type, Matrix_element_type, Shape, Data, Comment]"

text \<open>
  A configuration supplies a field when it has a value for it other than \<open>undefined\<close>
  (for which the default steps in, as for a missing property) and, for \<open>date\<close>, other
  than \<open>null\<close>, which the constructor takes as "not set".
\<close>

definition supplied :: "jsval \<Rightarrow> field \<Rightarrow> bool" where
  "supplied cfg f =
     (get_prop cfg (field_name f) \<noteq> JUndefined \<and>
      \<not> (f = Date \<and> get_prop cfg (field_name f) = JNull))"

definition rejected :: "jsval \<Rightarrow> field \<Rightarrow> bool" where
  "rejected cfg f = (supplied cfg f \<and> validator f (get_prop cfg (field_name f)) \<noteq> None)"

text \<open>What the constructor of the current version assigns when a field is not supplied.\<close>

definition default_1 :: "clock \<Rightarrow> field \<Rightarrow> jsval" where
  "default_1 clk f =
     (if f = Date then JString (Date_toISOString clk)
      else get_prop DEFAULT_BIOM (field_name f))"

definition param_1 :: "clock \<Rightarrow> jsval \<Rightarrow> field \<Rightarrow> jsval" where
  "param_1 clk cfg f =
     (if supplied cfg f then get_prop cfg (field_name f) else default_1 clk f)"

text \<open>The twelve fields that the older version has too, and what it stores for them.\<close>

definition common_fields :: "field list" where
  "common_fields = [Id, Format, Format_url, Type, Generated_by, Date, Rows, Columns,
     Matrix_type, Matrix_element_type, Shape, Data]"

definition param_2 :: "clock \<Rightarrow> jsval \<Rightarrow> field \<Rightarrow> jsval" where
  "param_2 clk cfg f =
     (if get_prop cfg (field_name f) \<noteq> JUndefined then get_prop cfg (field_name f)
      else if f = Date then JNumber (Finite (of_int (Date_now clk)))
      else get_prop DEFAULT_BIOM_2 (field_name f))"

text \<open>Every field of an instance passes its validator.\<close>

definition valid_biom :: "biom \<Rightarrow> bool" where
  "valid_biom b = list_all (\<lambda>f. validator f (getter f b) = None) field_order"

text \<open>The three enum fields hold members of their vocabularies.\<close>

definition in_vocabularies :: "biom \<Rightarrow> bool" where
  "in_vocabularies b =
     (p_type b \<in> set TYPE_CV \<and>
      p_matrix_type b \<in> set MATRIX_TYPE_CV \<and>
      p_matrix_element_type b \<in> set MATRIX_ELEMENT_TYPE_CV)"

text \<open>
  The two encodings of \<open>data\<close>: a sequence of triples (row, column, value), and a
  sequence of rows of values. \<open>matrix_type\<close> describes \<open>data\<close> when \<open>data\<close> has the
  encoding that \<open>matrix_type\<close> names.
\<close>

definition is_array :: "jsval \<Rightarrow> bool" where
  "is_array v = (case v of JArray xs \<Rightarrow> True | _ \<Rightarrow> False)"

definition sparse_encoded :: "jsval \<Rightarrow> bool" where
  "sparse_encoded d =
     (is_array d \<and> list_all (\<lambda>t. is_array t \<and> length (elements t) = 3) (elements d))"

definition dense_encoded :: "jsval \<Rightarrow> bool" where
  "dense_encoded d = (is_array d \<and> list_all is_array (elements d))"

definition matrix_type_describes_data :: "biom \<Rightarrow> bool" where
  "matrix_type_describes_data b =
     ((p_matrix_type b = JString ''sparse'' \<longrightarrow> sparse_encoded (p_data b)) \<and>
      (p_matrix_type b = JString ''dense'' \<longrightarrow> dense_encoded (p_data b)))"

text \<open>A clock for the examples: the instant of the epoch.\<close>

definition epoch :: clock where
  "epoch = \<lparr>Date_now = 0, Date_toISOString = ''1970-01-01T00:00:00.000Z''\<rparr>"

text \<open>A configuration for the examples, with a valid value for each of the twelve common fields.\<close>

definition example_entries :: "(string \<times> jsval) list" where
  "example_entries =
     [(''id'', JString ''table-1''),
      (''format'', JString ''Biological Observation Matrix 1.0.0''),
      (''format_url'', JString ''http://biom-format.org''),
      (''type'', JString ''Gene table''),
      (''generated_by'', JString ''a producer''),
      (''date'', JString ''2016-05-03T08:13:41.848Z''),
      (''rows'', JArray [JObject [(''id'', JString ''r0'')], JObject [(''id'', JString ''r1'')]]),
      (''columns'', JArray [JObject [(''id'', JString ''c0'')]]),
      (''matrix_type'', JString ''dense''),
      (''matrix_element_type'', JString ''int''),
      (''shape'', JArray [JNumber (Finite 2), JNumber (Finite 1)]),
      (''data'', JArray [JArray [JNumber (Finite 7)], JArray [JNumber (Finite 0)]])]"

section \<open>The default arrays by reference\<close>

text \<open>
  The constructor of the current version takes \<open>DEFAULT_BIOM.rows\<close>, \<open>.columns\<close>,
  \<open>.shape\<close> and \<open>.data\<close> as defaults, the setters store what they are given without
  copying it (\<open>this._rows = rows\<close>), and the getters return what is stored. An instance
  built with defaults therefore holds the very arrays of \<open>DEFAULT_BIOM\<close>, and a caller who
  changes one of them in place changes the default of every later construction. To
  express this, a stored value is either a value whose identity plays no role, or the
  address of an array object, whose elements the heap gives.
\<close>

type_synonym addr = nat

datatype rval = Val jsval | Arr addr

type_synonym heap = "addr \<Rightarrow> jsval list"

fun deref :: "heap \<Rightarrow> rval \<Rightarrow> jsval" where
  "deref h (Val v) = v"
| "deref h (Arr a) = JArray (h a)"

text \<open>
  The properties of \<open>DEFAULT_BIOM\<close>: its four arrays are the array objects at the
  addresses 0 to 3, the other properties are the strings and \<open>null\<close> of the object
  literal. \<open>heap_loaded\<close> has the elements that the literal gives the four arrays.
\<close>

fun DEFAULT_BIOM_ref :: "field \<Rightarrow> rval" where
  "DEFAULT_BIOM_ref Rows = Arr 0"
| "DEFAULT_BIOM_ref Columns = Arr 1"
| "DEFAULT_BIOM_ref Shape = Arr 2"
| "DEFAULT_BIOM_ref Data = Arr 3"
| "DEFAULT_BIOM_ref f = Val (get_prop DEFAULT_BIOM (field_name f))"

definition heap_loaded :: heap where
  "heap_loaded a = (if a = 2 then [JNumber (Finite 0), JNumber (Finite 0)] else [])"

text \<open>
  An instance holds a stored value for each backing property, a configuration one for
  each option (\<open>undefined\<close> for an option it does not have).
\<close>

type_synonym rbiom = "field \<Rightarrow> rval"

definition fresh_ref :: rbiom where
  "fresh_ref = (\<lambda>f. Val JUndefined)"

text \<open>
  The setter of \<open>f\<close> called with a stored value: its check looks at the value, for an
  array object at its elements, and on success the backing property becomes the stored
  value itself, not a copy.
\<close>

definition assign_ref :: "heap \<Rightarrow> field \<Rightarrow> rval \<Rightarrow> rbiom \<Rightarrow> exn option \<times> rbiom" where
  "assign_ref h f r b =
     (case validator f (deref h r) of
        Some e \<Rightarrow> (Some e, b)
      | None \<Rightarrow> (None, b(f := r)))"

fun run_ref :: "heap \<Rightarrow> (field \<times> rval) list \<Rightarrow> rbiom \<Rightarrow> exn option \<times> rbiom" where
  "run_ref h [] b = (None, b)"
| "run_ref h ((f, r) # as) b =
     (case assign_ref h f r b of
        (Some e, b') \<Rightarrow> (Some e, b')
      | (None, b') \<Rightarrow> run_ref h as b')"

text \<open>
  The parameters of the constructor: \<open>id\<close> defaults to \<open>null\<close>, \<open>date\<close> to \<open>null\<close> and
  from there to the current time, every other option to the property of \<open>DEFAULT_BIOM\<close>.
\<close>

definition supplied_ref :: "(field \<Rightarrow> rval) \<Rightarrow> field \<Rightarrow> bool" where
  "supplied_ref cfg f = (cfg f \<noteq> Val JUndefined \<and> \<not> (f = Date \<and> cfg f = Val JNull))"

definition default_ref :: "clock \<Rightarrow> field \<Rightarrow> rval" where
  "default_ref clk f =
     (if f = Id then Val JNull
      else if f = Date then Val (JString (Date_toISOString clk))
      else DEFAULT_BIOM_ref f)"

definition param_ref :: "clock \<Rightarrow> (field \<Rightarrow> rval) \<Rightarrow> field \<Rightarrow> rval" where
  "param_ref clk cfg f = (if supplied_ref cfg f then cfg f else default_ref clk f)"

text \<open>\<open>new Biom(cfg)\<close> of the current version, on a heap.\<close>

definition new_Biom_1_ref :: "clock \<Rightarrow> heap \<Rightarrow> (field \<Rightarrow> rval) \<Rightarrow> exn + rbiom" where
  "new_Biom_1_ref clk h cfg =
     (case run_ref h (map (\<lambda>f. (f, param_ref clk cfg f)) field_order) fresh_ref of
        (Some e, b) \<Rightarrow> Inl e
      | (None, b) \<Rightarrow> Inr b)"





text \<open>
  The link to the model by value: a configuration without array objects of its own, and
  an instance with every stored value replaced by what it reads as.
\<close>

definition lift_cfg :: "jsval \<Rightarrow> field \<Rightarrow> rval" where
  "lift_cfg cfg f = Val (get_prop cfg (field_name f))"

definition by_value :: "heap \<Rightarrow> rbiom \<Rightarrow> biom" where
  "by_value h b =
     \<lparr>p_id = deref h (b Id), p_format = deref h (b Format),
      p_format_url = deref h (b Format_url), p_type = deref h (b Type),
      p_generated_by = deref h (b Generated_by), p_date = deref h (b Date),
      p_rows = deref h (b Rows), p_columns = deref h (b Columns),
      p_matrix_type = deref h (b Matrix_type),
      p_matrix_element_type = deref h (b Matrix_element_type),
      p_shape = deref h (b Shape), p_data = deref h (b Data),
      p_comment = deref h (b Comment)\<rparr>"

section \<open>Basic facts\<close>

lemma typeof_string_iff: "typeof v = ''string'' \<longleftrightarrow> (\<exists>s. v = JString s)"
  by (cases v) simp_all

lemma toString_call_array_iff: "toString_call v = ''[object Array]'' \<longleftrightarrow> (\<exists>xs. v = JArray xs)"
  by (cases v) simp_all

lemma is_array_iff: "is_array v \<longleftrightarrow> (\<exists>xs. v = JArray xs)"
  by (cases v) (simp_all add: is_array_def)

lemma indexOf_lower: "- 1 \<le> indexOf xs x"
  by (induction xs) (simp_all add: Let_def)

lemma indexOf_minus_one_iff: "indexOf xs x = - 1 \<longleftrightarrow> x \<notin> set xs"
proof (induction xs)
  case Nil
  show ?case by simp
next
  case (Cons y ys)
  have "indexOf ys x + 1 \<noteq> - 1"
    using indexOf_lower [of ys x] by arith
  with Cons show ?case
    by (auto simp add: Let_def)
qed

lemma Number_isInteger_iff:
  "Number_isInteger v \<and> \<not> lt_zero v \<longleftrightarrow> (\<exists>n::nat. v = JNumber (Finite (of_nat n)))"
proof
  assume h: "Number_isInteger v \<and> \<not> lt_zero v"
  then obtain r where v: "v = JNumber (Finite r)"
    by (cases v rule: Number_isInteger.cases) simp_all
  from h v have r: "of_int \<lfloor>r\<rfloor> = r" and "0 \<le> r"
    by simp_all
  then have "0 \<le> \<lfloor>r\<rfloor>"
    by simp
  then have "of_nat (nat \<lfloor>r\<rfloor>) = r"
    using r by (metis of_int_of_nat_eq int_nat_eq)
  with v have "v = JNumber (Finite (of_nat (nat \<lfloor>r\<rfloor>)))"
    by simp
  then show "\<exists>n::nat. v = JNumber (Finite (of_nat n))" ..
next
  assume "\<exists>n::nat. v = JNumber (Finite (of_nat n))"
  then show "Number_isInteger v \<and> \<not> lt_zero v"
    by auto
qed

section \<open>Setters and validators\<close>

lemmas setter_defs = set_id_def set_format_def set_format_url_def set_type_def
  set_generated_by_def set_date_def set_rows_def set_columns_def set_matrix_type_def
  set_matrix_element_type_def set_shape_def set_data_def set_comment_def

lemma assign_char:
  "assign f v b = (case validator f v of Some e \<Rightarrow> (Some e, b) | None \<Rightarrow> (None, store f v b))"
  by (cases f) (simp_all add: validator_def setter_defs)

lemma validator_state: "fst (assign f v b) = validator f v"
  by (simp add: assign_char split: option.split)

lemma assign_rejected: "validator f v = Some e \<Longrightarrow> assign f v b = (Some e, b)"
  by (simp add: assign_char)

lemma assign_accepted: "validator f v = None \<Longrightarrow> assign f v b = (None, store f v b)"
  by (simp add: assign_char)

lemma getter_store: "getter g (store f v b) = (if g = f then v else getter g b)"
  by (cases f; cases g) simp_all

lemma store_getter: "store f (getter f b) b = b"
  by (cases f) simp_all

lemma field_order_all: "f \<in> set field_order"
  by (cases f) (simp_all add: field_order_def)

lemma field_order_distinct: "distinct field_order"
  by (simp add: field_order_def)

lemma run_assign_error:
  "fst (run (map (\<lambda>f. assign f (p f)) fs) b) =
     (case find (\<lambda>f. validator f (p f) \<noteq> None) fs of
        None \<Rightarrow> None
      | Some g \<Rightarrow> validator g (p g))"
proof (induction fs arbitrary: b)
  case Nil
  show ?case by simp
next
  case (Cons f fs)
  show ?case
  proof (cases "validator f (p f)")
    case None
    then show ?thesis
      using Cons.IH [of "store f (p f) b"] by (simp add: assign_accepted)
  next
    case (Some e)
    then show ?thesis
      by (simp add: assign_rejected)
  qed
qed

lemma run_assign_accepted:
  "\<forall>f \<in> set fs. validator f (p f) = None \<Longrightarrow>
     run (map (\<lambda>f. assign f (p f)) fs) b = (None, fold (\<lambda>f. store f (p f)) fs b)"
  by (induction fs arbitrary: b) (simp_all add: assign_accepted)

lemma getter_fold_store:
  "distinct fs \<Longrightarrow>
     getter g (fold (\<lambda>f. store f (p f)) fs b) = (if g \<in> set fs then p g else getter g b)"
  by (induction fs arbitrary: b) (auto simp add: getter_store)

lemma get_prop_dflt_arg: "get_prop (dflt arg (JObject [])) k = get_prop arg k"
  by (cases arg) (simp_all add: dflt_def)

lemma param_1_eqs:
  "param_1 clk cfg Id = dflt (get_prop cfg ''id'') JNull"
  "param_1 clk cfg Format = dflt (get_prop cfg ''format'') (get_prop DEFAULT_BIOM ''format'')"
  "param_1 clk cfg Format_url =
     dflt (get_prop cfg ''format_url'') (get_prop DEFAULT_BIOM ''format_url'')"
  "param_1 clk cfg Type = dflt (get_prop cfg ''type'') (get_prop DEFAULT_BIOM ''type'')"
  "param_1 clk cfg Generated_by =
     dflt (get_prop cfg ''generated_by'') (get_prop DEFAULT_BIOM ''generated_by'')"
  "param_1 clk cfg Date =
     (if dflt (get_prop cfg ''date'') JNull = JNull then JString (Date_toISOString clk)
      else dflt (get_prop cfg ''date'') JNull)"
  "param_1 clk cfg Rows = dflt (get_prop cfg ''rows'') (get_prop DEFAULT_BIOM ''rows'')"
  "param_1 clk cfg Columns = dflt (get_prop cfg ''columns'') (get_prop DEFAULT_BIOM ''columns'')"
  "param_1 clk cfg Matrix_type =
     dflt (get_prop cfg ''matrix_type'') (get_prop DEFAULT_BIOM ''matrix_type'')"
  "param_1 clk cfg Matrix_element_type =
     dflt (get_prop cfg ''matrix_element_type'') (get_prop DEFAULT_BIOM ''matrix_element_type'')"
  "param_1 clk cfg Shape = dflt (get_prop cfg ''shape'') (get_prop DEFAULT_BIOM ''shape'')"
  "param_1 clk cfg Data = dflt (get_prop cfg ''data'') (get_prop DEFAULT_BIOM ''data'')"
  "param_1 clk cfg Comment = dflt (get_prop cfg ''comment'') (get_prop DEFAULT_BIOM ''comment'')"
  by (simp_all add: param_1_def supplied_def default_1_def dflt_def DEFAULT_BIOM_def)

lemma constructor_1_run:
  "constructor_1 clk cfg this = run (map (\<lambda>f. assign f (param_1 clk cfg f)) field_order) this"
  unfolding constructor_1_def Let_def field_order_def list.map assign.simps param_1_eqs ..

section \<open>The constructors\<close>

lemma validator_simps:
  "validator Id v =
     (if v \<noteq> JNull \<and> typeof v \<noteq> ''string'' then Some (TypeError ''id must be string or null'')
      else None)"
  "validator Comment v =
     (if v \<noteq> JNull \<and> typeof v \<noteq> ''string''
      then Some (TypeError ''comment must be string or null'') else None)"
  "validator Format v =
     (if typeof v \<noteq> ''string'' then Some (TypeError ''format must be string'') else None)"
  "validator Generated_by v =
     (if typeof v \<noteq> ''string'' then Some (TypeError ''generated_by must be string'') else None)"
  "validator Date v =
     (if typeof v \<noteq> ''string'' then Some (TypeError ''date must be string (ISO 8601 format)'')
      else None)"
  "validator Rows v =
     (if toString_call v \<noteq> ''[object Array]'' then Some (TypeError ''rows must be an Array'')
      else None)"
  "validator Columns v =
     (if toString_call v \<noteq> ''[object Array]'' then Some (TypeError ''columns must be an Array'')
      else None)"
  "validator Data v =
     (if toString_call v \<noteq> ''[object Array]'' then Some (TypeError ''data must be an Array'')
      else None)"
  by (simp_all add: validator_def setter_defs)

lemma validator_undefined: "validator f JUndefined \<noteq> None"
  by (cases f) (simp_all add: validator_def setter_defs)

lemma default_1_accepted: "validator f (default_1 clk f) = None"
  by (cases f)
    (simp_all add: validator_def setter_defs default_1_def DEFAULT_BIOM_def TYPE_CV_def
      MATRIX_TYPE_CV_def MATRIX_ELEMENT_TYPE_CV_def js_length_def js_index_def)

lemma validator_param_1: "validator f (param_1 clk cfg f) \<noteq> None \<longleftrightarrow> rejected cfg f"
  by (simp add: param_1_def rejected_def default_1_accepted)

lemma supplied_dflt_arg: "supplied (dflt arg (JObject [])) = supplied arg"
  by (rule ext) (simp add: supplied_def get_prop_dflt_arg)

lemma param_1_dflt_arg: "param_1 clk (dflt arg (JObject [])) = param_1 clk arg"
  by (rule ext) (simp add: param_1_def supplied_dflt_arg get_prop_dflt_arg)

lemma dflt_arg_null: "dflt arg (JObject []) = JNull \<longleftrightarrow> arg = JNull"
  by (simp add: dflt_def)

lemma new_Biom_1_run:
  "new_Biom_1 clk arg =
     (if arg = JNull then Inl destructure_null
      else (case run (map (\<lambda>f. assign f (param_1 clk arg f)) field_order) fresh of
              (Some e, b) \<Rightarrow> Inl e
            | (None, b) \<Rightarrow> Inr b))"
  by (simp add: new_Biom_1_def Let_def dflt_arg_null constructor_1_run param_1_dflt_arg)

lemma rejected_not_null: "rejected arg f \<Longrightarrow> arg \<noteq> JNull"
  by (auto simp add: rejected_def supplied_def)

lemma new_Biom_1_rejects:
  assumes "find (rejected arg) field_order = Some g"
  shows "\<exists>e. validator g (get_prop arg (field_name g)) = Some e \<and> new_Biom_1 clk arg = Inl e"
proof -
  from assms have g: "rejected arg g"
    by (auto simp add: find_Some_iff)
  then obtain e where e: "validator g (get_prop arg (field_name g)) = Some e"
    by (auto simp add: rejected_def)
  from g have p: "param_1 clk arg g = get_prop arg (field_name g)"
    by (simp add: param_1_def rejected_def)
  have "(\<lambda>f. validator f (param_1 clk arg f) \<noteq> None) = rejected arg"
    by (rule ext) (rule validator_param_1)
  then have "fst (run (map (\<lambda>f. assign f (param_1 clk arg f)) field_order) fresh) =
      (case find (rejected arg) field_order of
         None \<Rightarrow> None
       | Some g \<Rightarrow> validator g (param_1 clk arg g))"
    by (simp only: run_assign_error)
  then have "fst (run (map (\<lambda>f. assign f (param_1 clk arg f)) field_order) fresh) = Some e"
    using assms e p by simp
  then have "new_Biom_1 clk arg = Inl e"
    using rejected_not_null [OF g] by (auto simp add: new_Biom_1_run split: prod.split option.split)
  with e show ?thesis by blast
qed

lemma new_Biom_1_accepts:
  assumes "arg \<noteq> JNull" and "\<And>f. \<not> rejected arg f"
  shows "new_Biom_1 clk arg = Inr (fold (\<lambda>f. store f (param_1 clk arg f)) field_order fresh)"
proof -
  have "\<forall>f \<in> set field_order. validator f (param_1 clk arg f) = None"
    using assms(2) validator_param_1 [of _ clk arg] by blast
  then show ?thesis
    using assms(1) by (simp add: new_Biom_1_run run_assign_accepted)
qed

lemma new_Biom_1_Inr:
  assumes "new_Biom_1 clk arg = Inr b"
  shows "arg \<noteq> JNull" and "\<not> rejected arg f"
    and "b = fold (\<lambda>f. store f (param_1 clk arg f)) field_order fresh"
proof -
  show n: "arg \<noteq> JNull"
    using assms by (auto simp add: new_Biom_1_run)
  have r: "\<not> rejected arg h" for h
  proof
    assume "rejected arg h"
    then have "find (rejected arg) field_order \<noteq> None"
      using field_order_all [of h] by (auto simp add: find_None_iff)
    then obtain g where "find (rejected arg) field_order = Some g"
      by blast
    from new_Biom_1_rejects [OF this, of clk] assms show False
      by auto
  qed
  then show "\<not> rejected arg f" .
  from new_Biom_1_accepts [OF n r, of clk] assms
  show "b = fold (\<lambda>f. store f (param_1 clk arg f)) field_order fresh"
    by simp
qed

lemma getter_constructed:
  "getter g (fold (\<lambda>f. store f (param_1 clk arg f)) field_order fresh) = param_1 clk arg g"
  by (simp add: getter_fold_store field_order_distinct field_order_all)

lemma valid_biom_iff: "valid_biom b \<longleftrightarrow> (\<forall>f. validator f (getter f b) = None)"
  using field_order_all by (auto simp add: valid_biom_def list_all_iff)

lemma valid_new_Biom_1: "new_Biom_1 clk arg = Inr b \<Longrightarrow> valid_biom b"
  using new_Biom_1_Inr(2) [of clk arg b] new_Biom_1_Inr(3) [of clk arg b]
    validator_param_1 [of _ clk arg]
  by (auto simp add: valid_biom_iff getter_constructed)

lemma valid_assign: "valid_biom b \<Longrightarrow> valid_biom (snd (assign f v b))"
  by (cases "validator f v") (auto simp add: valid_biom_iff assign_char getter_store)

lemma valid_assignments: "valid_biom b \<Longrightarrow> valid_biom (assignments ops b)"
  by (induction ops arbitrary: b) (auto simp add: valid_assign)

lemma valid_in_vocabularies:
  assumes "valid_biom b"
  shows "in_vocabularies b"
proof -
  have "validator Type (p_type b) = None"
    using assms valid_biom_iff [of b] getter.simps(4) [of b] by metis
  then have t: "p_type b \<in> set TYPE_CV"
    by (simp add: validator_def set_type_def indexOf_minus_one_iff split: if_splits)
  have "validator Matrix_type (p_matrix_type b) = None"
    using assms valid_biom_iff [of b] getter.simps(9) [of b] by metis
  then have m: "p_matrix_type b \<in> set MATRIX_TYPE_CV"
    by (simp add: validator_def set_matrix_type_def indexOf_minus_one_iff split: if_splits)
  have "validator Matrix_element_type (p_matrix_element_type b) = None"
    using assms valid_biom_iff [of b] getter.simps(10) [of b] by metis
  then have "p_matrix_element_type b \<in> set MATRIX_ELEMENT_TYPE_CV"
    by (simp add: validator_def set_matrix_element_type_def indexOf_minus_one_iff
        split: if_splits)
  with t m show ?thesis
    by (simp add: in_vocabularies_def)
qed

lemma new_Biom_1_no_args:
  "new_Biom_1 clk JUndefined = Inr
     \<lparr>p_id = JNull,
      p_format = JString ''Biological Observation Matrix 1.0.0'',
      p_format_url = JString ''http://biom-format.org'',
      p_type = JString ''OTU table'',
      p_generated_by = JString ''biojs-io-biom v0.1.0'',
      p_date = JString (Date_toISOString clk),
      p_rows = JArray [],
      p_columns = JArray [],
      p_matrix_type = JString ''sparse'',
      p_matrix_element_type = JString ''float'',
      p_shape = JArray [JNumber (Finite 0), JNumber (Finite 0)],
      p_data = JArray [],
      p_comment = JNull\<rparr>"
proof -
  have "\<not> rejected JUndefined f" for f
    by (simp add: rejected_def supplied_def)
  then have "new_Biom_1 clk JUndefined =
      Inr (fold (\<lambda>f. store f (param_1 clk JUndefined f)) field_order fresh)"
    by (intro new_Biom_1_accepts) simp_all
  then show ?thesis
    by (simp add: field_order_def param_1_def supplied_def default_1_def DEFAULT_BIOM_def
        VERSION_def fresh_def)
qed

lemma param_2_eqs:
  "param_2 clk cfg Id = dflt (get_prop cfg ''id'') JNull"
  "param_2 clk cfg Format = dflt (get_prop cfg ''format'') (get_prop DEFAULT_BIOM_2 ''format'')"
  "param_2 clk cfg Format_url =
     dflt (get_prop cfg ''format_url'') (get_prop DEFAULT_BIOM_2 ''format_url'')"
  "param_2 clk cfg Type = dflt (get_prop cfg ''type'') (get_prop DEFAULT_BIOM_2 ''type'')"
  "param_2 clk cfg Generated_by =
     dflt (get_prop cfg ''generated_by'') (get_prop DEFAULT_BIOM_2 ''generated_by'')"
  "param_2 clk cfg Date =
     dflt (get_prop cfg ''date'') (JNumber (Finite (of_int (Date_now clk))))"
  "param_2 clk cfg Rows = dflt (get_prop cfg ''rows'') (get_prop DEFAULT_BIOM_2 ''rows'')"
  "param_2 clk cfg Columns =
     dflt (get_prop cfg ''columns'') (get_prop DEFAULT_BIOM_2 ''columns'')"
  "param_2 clk cfg Matrix_type =
     dflt (get_prop cfg ''matrix_type'') (get_prop DEFAULT_BIOM_2 ''matrix_type'')"
  "param_2 clk cfg Matrix_element_type =
     dflt (get_prop cfg ''matrix_element_type'')
       (get_prop DEFAULT_BIOM_2 ''matrix_element_type'')"
  "param_2 clk cfg Shape = dflt (get_prop cfg ''shape'') (get_prop DEFAULT_BIOM_2 ''shape'')"
  "param_2 clk cfg Data = dflt (get_prop cfg ''data'') (get_prop DEFAULT_BIOM_2 ''data'')"
  by (simp_all add: param_2_def dflt_def DEFAULT_BIOM_2_def)

lemma constructor_2_stores:
  "constructor_2 clk cfg this =
     (None, fold (\<lambda>f. store f (param_2 clk cfg f)) common_fields this)"
  unfolding constructor_2_def Let_def common_fields_def fold_simps store.simps param_2_eqs
  by simp

lemma param_2_dflt_arg: "param_2 clk (dflt arg (JObject [])) = param_2 clk arg"
  by (rule ext) (simp add: param_2_def get_prop_dflt_arg)

lemma new_Biom_2_stores:
  "arg \<noteq> JNull \<Longrightarrow>
     new_Biom_2 clk arg = Inr (fold (\<lambda>f. store f (param_2 clk arg f)) common_fields fresh)"
  by (simp add: new_Biom_2_def Let_def dflt_arg_null constructor_2_stores param_2_dflt_arg)

lemma getter_constructed_2:
  "g \<in> set common_fields \<Longrightarrow>
     getter g (fold (\<lambda>f. store f (param_2 clk arg f)) common_fields fresh) = param_2 clk arg g"
  by (subst getter_fold_store) (simp_all add: common_fields_def)

lemma older_constructor_date_is_number:
  "map_sum id (getter Date) (new_Biom_2 clk JUndefined) =
     Inr (JNumber (Finite (of_int (Date_now clk))))"
  by (simp add: new_Biom_2_def constructor_2_def dflt_def Let_def)

lemma example_entries_accepted:
  "f \<in> set common_fields \<Longrightarrow>
     validator f (get_prop (JObject (example_entries @ extra)) (field_name f)) = None"
  by (cases f)
    (simp_all add: common_fields_def example_entries_def validator_def setter_defs TYPE_CV_def
      MATRIX_TYPE_CV_def MATRIX_ELEMENT_TYPE_CV_def js_length_def js_index_def)

lemma example_entries_comment:
  "get_prop (JObject (example_entries @ extra)) ''comment'' = get_prop (JObject extra) ''comment''"
  by (simp add: example_entries_def)

section \<open>Properties of construction\<close>

text \<open>
  \<^bold>\<open>C1.\<close> Construction with an invalid value. When a configuration supplies, for some
  field, a value that the field's validator rejects, the constructor of the current
  version throws and returns no instance. The exception is the one the validator of the
  first rejected field in assignment order gives for the supplied value; when one field
  only is rejected, it is that field's. The constructor of the older version does not
  validate: the example after the theorem builds an instance whose \<open>type\<close> is the
  number 5.
\<close>

theorem construction_rejects_invalid_value:
  "rejected arg f \<Longrightarrow>
     (\<exists>g e. find (rejected arg) field_order = Some g \<and>
        validator g (get_prop arg (field_name g)) = Some e \<and> new_Biom_1 clk arg = Inl e) \<and>
     ((\<forall>h. rejected arg h \<longrightarrow> h = f) \<longrightarrow>
        (\<exists>e. validator f (get_prop arg (field_name f)) = Some e \<and> new_Biom_1 clk arg = Inl e))"
proof -
  assume r: "rejected arg f"
  then have "find (rejected arg) field_order \<noteq> None"
    using field_order_all [of f] by (auto simp add: find_None_iff)
  then obtain g where g: "find (rejected arg) field_order = Some g"
    by blast
  from new_Biom_1_rejects [OF g, of clk] obtain e
    where e: "validator g (get_prop arg (field_name g)) = Some e" "new_Biom_1 clk arg = Inl e"
    by blast
  from g have "rejected arg g"
    by (auto simp add: find_Some_iff)
  with g e show ?thesis
    by auto
qed

theorem construction_rejects_invalid_value_witness:
  "rejected (JObject [(''id'', JNumber (Finite 42))]) Id \<and>
   new_Biom_1 epoch (JObject [(''id'', JNumber (Finite 42))]) =
     Inl (TypeError ''id must be string or null'')"
proof -
  have r: "rejected (JObject [(''id'', JNumber (Finite 42))]) h \<longleftrightarrow> h = Id" for h
    by (cases h) (simp_all add: rejected_def supplied_def validator_simps)
  then have h: "rejected (JObject [(''id'', JNumber (Finite 42))]) Id"
    by simp
  from construction_rejects_invalid_value [OF h, of epoch] r show ?thesis
    by (auto simp add: validator_simps)
qed

theorem older_constructor_accepts_invalid_type:
  "rejected (JObject [(''type'', JNumber (Finite 5))]) Type \<and>
   map_sum id (getter Type) (new_Biom_2 epoch (JObject [(''type'', JNumber (Finite 5))])) =
     Inr (JNumber (Finite 5))"
  by (simp add: rejected_def supplied_def validator_def set_type_def new_Biom_2_def
      constructor_2_def dflt_def Let_def)

text \<open>
  \<^bold>\<open>C2.\<close> The vocabulary invariant. After a successful construction by the current
  version, and after any sequence of assignments to any fields, successful or not,
  \<open>type\<close>, \<open>matrix_type\<close> and \<open>matrix_element_type\<close> are members of \<open>TYPE_CV\<close>,
  \<open>MATRIX_TYPE_CV\<close> and \<open>MATRIX_ELEMENT_TYPE_CV\<close>. The older version's constructor stores
  what it is given, as the example after the theorem shows.
\<close>

theorem vocabulary_invariant:
  "new_Biom_1 clk arg = Inr b \<Longrightarrow> in_vocabularies (assignments ops b)"
  by (intro valid_in_vocabularies valid_assignments valid_new_Biom_1)

theorem vocabulary_invariant_witness:
  "new_Biom_1 epoch JUndefined = Inr (projr (new_Biom_1 epoch JUndefined)) \<and>
   in_vocabularies
     (assignments [(Type, JString ''Gene table''), (Type, JString ''Invalid table''),
        (Matrix_type, JNumber (Finite 1))] (projr (new_Biom_1 epoch JUndefined)))"
proof -
  have h: "new_Biom_1 epoch JUndefined = Inr (projr (new_Biom_1 epoch JUndefined))"
    by (simp add: new_Biom_1_no_args)
  from vocabulary_invariant [OF h] h show ?thesis
    by blast
qed

theorem older_constructor_leaves_vocabulary:
  "map_sum id in_vocabularies
     (new_Biom_2 epoch (JObject [(''matrix_type'', JString ''banana'')])) = Inr False"
  by (simp add: new_Biom_2_def constructor_2_def dflt_def Let_def in_vocabularies_def
      MATRIX_TYPE_CV_def)

section \<open>Properties of the setters\<close>

lemma shape_elements_check:
  "(\<not> Number_isInteger x \<or> lt_zero x \<or> \<not> Number_isInteger y \<or> lt_zero y) \<longleftrightarrow>
     (\<exists>z \<in> set [x, y]. \<forall>n::nat. z \<noteq> JNumber (Finite (of_nat n)))"
  using Number_isInteger_iff [of x] Number_isInteger_iff [of y] by auto

lemma set_shape_char:
  "set_shape v b =
     (if \<not> is_array v
      then (Some (TypeError
             ''shape must be an Array containing exactly two non-negative integers''), b)
      else if length (elements v) \<noteq> 2
      then (Some (Error ''shape does not contain exactly two elements''), b)
      else if \<exists>x \<in> set (elements v). \<forall>n::nat. x \<noteq> JNumber (Finite (of_nat n))
      then (Some (Error ''shape does not contain non-negative integers''), b)
      else (None, b\<lparr>p_shape := v\<rparr>))"
proof (cases "is_array v")
  case False
  then have "toString_call v \<noteq> ''[object Array]''"
    by (simp add: is_array_iff toString_call_array_iff)
  with False show ?thesis
    by (simp add: set_shape_def)
next
  case True
  then obtain xs where v: "v = JArray xs"
    by (auto simp add: is_array_iff)
  show ?thesis
  proof (cases "length xs = 2")
    case False
    with True v show ?thesis
      by (simp add: set_shape_def js_length_def)
  next
    case l: True
    then obtain x y where xs: "xs = [x, y]"
      by (cases xs; cases "tl xs") auto
    show ?thesis
      using True shape_elements_check [of x y]
      by (simp add: v xs set_shape_def js_length_def js_index_def)
  qed
qed

text \<open>
  \<^bold>\<open>C3.\<close> The rule of \<open>shape\<close>. Assigning \<open>v\<close> to \<open>shape\<close> throws the \<open>TypeError\<close> of the
  setter when \<open>v\<close> is not an array; otherwise the \<open>Error\<close> "exactly two elements" when
  the length of \<open>v\<close> is not two; otherwise the \<open>Error\<close> "non-negative integers" when some
  element is not a non-negative integer; and otherwise stores \<open>v\<close>. The same holds at
  construction: when a configuration supplies \<open>v\<close> for \<open>shape\<close> (a value other than
  \<open>undefined\<close>, which means "not supplied") and none of its other fields is rejected,
  the constructor throws exactly the exception of the assignment, or returns an
  instance whose \<open>shape\<close> is \<open>v\<close>.
\<close>

theorem shape_assignment:
  "assign Shape v b =
     (if \<not> is_array v
      then (Some (TypeError
             ''shape must be an Array containing exactly two non-negative integers''), b)
      else if length (elements v) \<noteq> 2
      then (Some (Error ''shape does not contain exactly two elements''), b)
      else if \<exists>x \<in> set (elements v). \<forall>n::nat. x \<noteq> JNumber (Finite (of_nat n))
      then (Some (Error ''shape does not contain non-negative integers''), b)
      else (None, b\<lparr>p_shape := v\<rparr>)) \<and>
   (get_prop arg ''shape'' = v \<and> v \<noteq> JUndefined \<and> (\<forall>f. f \<noteq> Shape \<longrightarrow> \<not> rejected arg f) \<longrightarrow>
      (\<forall>e. fst (assign Shape v b) = Some e \<longrightarrow> new_Biom_1 clk arg = Inl e) \<and>
      (fst (assign Shape v b) = None \<longrightarrow>
         (\<exists>t. new_Biom_1 clk arg = Inr t \<and> getter Shape t = v)))"
proof (intro conjI impI allI)
  show "assign Shape v b =
     (if \<not> is_array v
      then (Some (TypeError
             ''shape must be an Array containing exactly two non-negative integers''), b)
      else if length (elements v) \<noteq> 2
      then (Some (Error ''shape does not contain exactly two elements''), b)
      else if \<exists>x \<in> set (elements v). \<forall>n::nat. x \<noteq> JNumber (Finite (of_nat n))
      then (Some (Error ''shape does not contain non-negative integers''), b)
      else (None, b\<lparr>p_shape := v\<rparr>))"
    by (simp only: assign.simps set_shape_char)
next
  fix e
  assume h: "get_prop arg ''shape'' = v \<and> v \<noteq> JUndefined \<and>
      (\<forall>f. f \<noteq> Shape \<longrightarrow> \<not> rejected arg f)"
    and e: "fst (assign Shape v b) = Some e"
  from e have ve: "validator Shape v = Some e"
    using validator_state [of Shape v b] by simp
  with h have r: "rejected arg Shape"
    by (simp add: rejected_def supplied_def)
  have "find (rejected arg) field_order = Some Shape"
    using h r by (simp add: field_order_def)
  from new_Biom_1_rejects [OF this, of clk] h ve show "new_Biom_1 clk arg = Inl e"
    by simp
next
  assume h: "get_prop arg ''shape'' = v \<and> v \<noteq> JUndefined \<and>
      (\<forall>f. f \<noteq> Shape \<longrightarrow> \<not> rejected arg f)"
    and e: "fst (assign Shape v b) = None"
  from e have "validator Shape v = None"
    using validator_state [of Shape v b] by simp
  with h have "\<not> rejected arg f" for f
    by (cases "f = Shape") (simp_all add: rejected_def)
  moreover from h have "arg \<noteq> JNull"
    by auto
  ultimately have "new_Biom_1 clk arg =
      Inr (fold (\<lambda>f. store f (param_1 clk arg f)) field_order fresh)"
    by (intro new_Biom_1_accepts)
  moreover from h have "param_1 clk arg Shape = v"
    by (simp add: param_1_def supplied_def)
  ultimately show "\<exists>t. new_Biom_1 clk arg = Inr t \<and> getter Shape t = v"
    using getter_constructed [of Shape clk arg] by simp
qed

theorem shape_assignment_witness:
  "assign Shape (JArray [JNumber (Finite 2), JNumber (Finite (- 1))]) fresh =
     (Some (Error ''shape does not contain non-negative integers''), fresh) \<and>
   assign Shape (JArray [JNumber (Finite 2)]) fresh =
     (Some (Error ''shape does not contain exactly two elements''), fresh) \<and>
   new_Biom_1 epoch (JObject [(''shape'', JArray [JNumber (Finite 2), JNumber (Finite (- 1))])]) =
     Inl (Error ''shape does not contain non-negative integers'') \<and>
   (\<exists>t. new_Biom_1 epoch (JObject [(''shape'', JArray [JNumber (Finite 2), JNumber (Finite 3)])]) =
      Inr t \<and> getter Shape t = JArray [JNumber (Finite 2), JNumber (Finite 3)])"
proof -
  have others: "\<not> rejected (JObject [(''shape'', w)]) f" if "f \<noteq> Shape" for f w
    using that by (cases f) (simp_all add: rejected_def supplied_def)
  have neg: "\<forall>n::nat. JNumber (Finite (- 1)) \<noteq> JNumber (Finite (of_nat n))"
    using Number_isInteger_iff [of "JNumber (Finite (- 1))"] by simp
  have ok: "fst (assign Shape (JArray [JNumber (Finite 2), JNumber (Finite 3)]) fresh) = None"
    by (simp add: set_shape_def js_length_def js_index_def)
  have a: "assign Shape (JArray [JNumber (Finite 2), JNumber (Finite (- 1))]) fresh =
     (Some (Error ''shape does not contain non-negative integers''), fresh)"
    using shape_assignment [of "JArray [JNumber (Finite 2), JNumber (Finite (- 1))]" fresh
        JUndefined epoch] neg
    by (simp add: is_array_def)
  have b: "assign Shape (JArray [JNumber (Finite 2)]) fresh =
     (Some (Error ''shape does not contain exactly two elements''), fresh)"
    using shape_assignment [of "JArray [JNumber (Finite 2)]" fresh JUndefined epoch]
    by (simp add: is_array_def)
  have c: "new_Biom_1 epoch
      (JObject [(''shape'', JArray [JNumber (Finite 2), JNumber (Finite (- 1))])]) =
     Inl (Error ''shape does not contain non-negative integers'')"
    using shape_assignment [of "JArray [JNumber (Finite 2), JNumber (Finite (- 1))]" fresh
        "JObject [(''shape'', JArray [JNumber (Finite 2), JNumber (Finite (- 1))])]" epoch]
      others a
    by simp
  have d: "\<exists>t. new_Biom_1 epoch
      (JObject [(''shape'', JArray [JNumber (Finite 2), JNumber (Finite 3)])]) = Inr t \<and>
      getter Shape t = JArray [JNumber (Finite 2), JNumber (Finite 3)]"
    using shape_assignment [of "JArray [JNumber (Finite 2), JNumber (Finite 3)]" fresh
        "JObject [(''shape'', JArray [JNumber (Finite 2), JNumber (Finite 3)])]" epoch]
      others ok
    by simp
  from a b c d show ?thesis
    by blast
qed

text \<open>
  \<^bold>\<open>C4.\<close> The enum fields. For \<open>type\<close>, \<open>matrix_type\<close> and \<open>matrix_element_type\<close>, each
  with its vocabulary: assigning a member of the vocabulary succeeds, and the field
  then reads as the value assigned; assigning a string outside the vocabulary throws an
  \<open>Error\<close>; assigning anything that is not a string throws a \<open>TypeError\<close>, whatever the
  vocabulary holds. In each failing case the instance is unchanged.
\<close>

theorem enum_assignment:
  "(f, cv) \<in> {(Type, TYPE_CV), (Matrix_type, MATRIX_TYPE_CV),
      (Matrix_element_type, MATRIX_ELEMENT_TYPE_CV)} \<Longrightarrow>
   (v \<in> set cv \<longrightarrow> assign f v b = (None, store f v b) \<and> getter f (snd (assign f v b)) = v) \<and>
   ((\<exists>s. v = JString s) \<and> v \<notin> set cv \<longrightarrow> (\<exists>m. assign f v b = (Some (Error m), b))) \<and>
   ((\<forall>s. v \<noteq> JString s) \<longrightarrow> (\<exists>m. assign f v b = (Some (TypeError m), b)))"
proof -
  assume "(f, cv) \<in> {(Type, TYPE_CV), (Matrix_type, MATRIX_TYPE_CV),
      (Matrix_element_type, MATRIX_ELEMENT_TYPE_CV)}"
  then consider "f = Type" "cv = TYPE_CV" | "f = Matrix_type" "cv = MATRIX_TYPE_CV"
    | "f = Matrix_element_type" "cv = MATRIX_ELEMENT_TYPE_CV"
    by auto
  then show ?thesis
  proof cases
    case 1
    have "v \<in> set TYPE_CV \<Longrightarrow> typeof v = ''string''"
      by (auto simp add: TYPE_CV_def)
    then show ?thesis
      using typeof_string_iff [of v]
      by (auto simp add: 1 set_type_def indexOf_minus_one_iff)
  next
    case 2
    have "v \<in> set MATRIX_TYPE_CV \<Longrightarrow> typeof v = ''string''"
      by (auto simp add: MATRIX_TYPE_CV_def)
    then show ?thesis
      using typeof_string_iff [of v]
      by (auto simp add: 2 set_matrix_type_def indexOf_minus_one_iff)
  next
    case 3
    have "v \<in> set MATRIX_ELEMENT_TYPE_CV \<Longrightarrow> typeof v = ''string''"
      by (auto simp add: MATRIX_ELEMENT_TYPE_CV_def)
    then show ?thesis
      using typeof_string_iff [of v]
      by (auto simp add: 3 set_matrix_element_type_def indexOf_minus_one_iff)
  qed
qed

theorem enum_assignment_witness:
  "getter Type (snd (assign Type (JString ''Gene table'') fresh)) = JString ''Gene table'' \<and>
   (\<exists>m. assign Type (JString ''Invalid table'') fresh = (Some (Error m), fresh)) \<and>
   (\<exists>m. assign Type (JNumber (Finite 42)) fresh = (Some (TypeError m), fresh))"
proof -
  have h: "(Type, TYPE_CV) \<in> {(Type, TYPE_CV), (Matrix_type, MATRIX_TYPE_CV),
      (Matrix_element_type, MATRIX_ELEMENT_TYPE_CV)}"
    by simp
  have m: "JString ''Gene table'' \<in> set TYPE_CV" "JString ''Invalid table'' \<notin> set TYPE_CV"
    by (simp_all add: TYPE_CV_def)
  from enum_assignment [OF h, of "JString ''Gene table''" fresh] m
  have a: "getter Type (snd (assign Type (JString ''Gene table'') fresh)) =
      JString ''Gene table''"
    by blast
  from enum_assignment [OF h, of "JString ''Invalid table''" fresh] m
  have b: "\<exists>m. assign Type (JString ''Invalid table'') fresh = (Some (Error m), fresh)"
    by blast
  from enum_assignment [OF h, of "JNumber (Finite 42)" fresh]
  have "\<exists>m. assign Type (JNumber (Finite 42)) fresh = (Some (TypeError m), fresh)"
    by blast
  with a b show ?thesis
    by blast
qed

section \<open>Defaults, frames and round trips\<close>

text \<open>
  \<^bold>\<open>C5.\<close> The default of \<open>date\<close>. In the current version, when the configuration has no
  \<open>date\<close>, or \<open>undefined\<close> or \<open>null\<close> for it, the \<open>date\<close> of the constructed instance is
  the string that \<open>new Date().toISOString()\<close> returned during construction; this is the
  case for a construction without arguments, which always succeeds. The older version
  has no such treatment of \<open>null\<close>, which it stores as the date.
\<close>

theorem date_defaults_to_now:
  "(new_Biom_1 clk arg = Inr b \<and> get_prop arg ''date'' \<in> {JUndefined, JNull} \<longrightarrow>
      getter Date b = JString (Date_toISOString clk)) \<and>
   (\<exists>t. new_Biom_1 clk JUndefined = Inr t \<and> getter Date t = JString (Date_toISOString clk))"
proof (intro conjI impI)
  assume h: "new_Biom_1 clk arg = Inr b \<and> get_prop arg ''date'' \<in> {JUndefined, JNull}"
  then have "getter Date b = param_1 clk arg Date"
    using new_Biom_1_Inr(3) [of clk arg b] getter_constructed [of Date clk arg] by simp
  with h show "getter Date b = JString (Date_toISOString clk)"
    by (auto simp add: param_1_def supplied_def default_1_def)
next
  show "\<exists>t. new_Biom_1 clk JUndefined = Inr t \<and> getter Date t = JString (Date_toISOString clk)"
    by (simp add: new_Biom_1_no_args)
qed

theorem date_defaults_to_now_witness:
  "map_sum id (getter Date) (new_Biom_1 epoch (JObject [(''date'', JNull)])) =
     Inr (JString ''1970-01-01T00:00:00.000Z'')"
proof -
  have r: "\<not> rejected (JObject [(''date'', JNull)]) f" for f
    by (cases f) (simp_all add: rejected_def supplied_def)
  have "new_Biom_1 epoch (JObject [(''date'', JNull)]) =
      Inr (fold (\<lambda>f. store f (param_1 epoch (JObject [(''date'', JNull)]) f)) field_order fresh)"
    by (intro new_Biom_1_accepts r) simp
  then obtain t where t: "new_Biom_1 epoch (JObject [(''date'', JNull)]) = Inr t"
    by blast
  from date_defaults_to_now [of epoch "JObject [(''date'', JNull)]" t] t
  have "getter Date t = JString (Date_toISOString epoch)"
    by simp
  with t show ?thesis
    by (simp add: epoch_def)
qed

theorem older_constructor_keeps_null_date:
  "map_sum id (getter Date) (new_Biom_2 epoch (JObject [(''date'', JNull)])) = Inr JNull"
  by (simp add: new_Biom_2_def constructor_2_def dflt_def Let_def)

text \<open>
  \<^bold>\<open>C6.\<close> A failed assignment changes nothing. When the assignment of \<open>v\<close> to a field
  \<open>f\<close> of an instance \<open>b\<close> throws, the instance after the call is \<open>b\<close>: every field,
  the assigned one included, reads as before.
\<close>

theorem failed_assignment_keeps_state:
  "fst (assign f v b) = Some e \<Longrightarrow>
     snd (assign f v b) = b \<and> (\<forall>g. getter g (snd (assign f v b)) = getter g b)"
  by (simp add: assign_char split: option.splits)

theorem failed_assignment_keeps_state_witness:
  "fst (assign Type (JString ''Invalid table'') (projr (new_Biom_1 epoch JUndefined))) =
     Some (Error ''type must be part of the controlled vocabulary'') \<and>
   getter Type (snd (assign Type (JString ''Invalid table'')
     (projr (new_Biom_1 epoch JUndefined)))) = JString ''OTU table''"
proof -
  have h: "fst (assign Type (JString ''Invalid table'') (projr (new_Biom_1 epoch JUndefined))) =
      Some (Error ''type must be part of the controlled vocabulary'')"
    by (simp add: set_type_def TYPE_CV_def)
  from failed_assignment_keeps_state [OF h] h show ?thesis
    by (simp add: new_Biom_1_no_args)
qed

subsection \<open>Facts about the default arrays\<close>

lemma biom_eqI:
  fixes b b' :: biom
  assumes "\<And>f. getter f b = getter f b'"
  shows "b = b'"
proof -
  have "p_id b = p_id b'" using assms [of Id] by simp
  moreover have "p_format b = p_format b'" using assms [of Format] by simp
  moreover have "p_format_url b = p_format_url b'" using assms [of Format_url] by simp
  moreover have "p_type b = p_type b'" using assms [of Type] by simp
  moreover have "p_generated_by b = p_generated_by b'" using assms [of Generated_by] by simp
  moreover have "p_date b = p_date b'" using assms [of Date] by simp
  moreover have "p_rows b = p_rows b'" using assms [of Rows] by simp
  moreover have "p_columns b = p_columns b'" using assms [of Columns] by simp
  moreover have "p_matrix_type b = p_matrix_type b'" using assms [of Matrix_type] by simp
  moreover have "p_matrix_element_type b = p_matrix_element_type b'"
    using assms [of Matrix_element_type] by simp
  moreover have "p_shape b = p_shape b'" using assms [of Shape] by simp
  moreover have "p_data b = p_data b'" using assms [of Data] by simp
  moreover have "p_comment b = p_comment b'" using assms [of Comment] by simp
  ultimately show ?thesis by simp
qed

lemma assign_ref_rejected:
  "validator f (deref h r) = Some e \<Longrightarrow> assign_ref h f r b = (Some e, b)"
  by (simp add: assign_ref_def)

lemma assign_ref_accepted:
  "validator f (deref h r) = None \<Longrightarrow> assign_ref h f r b = (None, b(f := r))"
  by (simp add: assign_ref_def)

lemma run_ref_error:
  "fst (run_ref h (map (\<lambda>f. (f, p f)) fs) b) =
     (case find (\<lambda>f. validator f (deref h (p f)) \<noteq> None) fs of
        None \<Rightarrow> None
      | Some g \<Rightarrow> validator g (deref h (p g)))"
proof (induction fs arbitrary: b)
  case Nil
  show ?case by simp
next
  case (Cons f fs)
  show ?case
  proof (cases "validator f (deref h (p f))")
    case None
    then show ?thesis
      by (simp add: assign_ref_accepted Cons.IH)
  next
    case (Some e)
    then show ?thesis
      by (simp add: assign_ref_rejected)
  qed
qed

lemma run_ref_accepted:
  "\<forall>f \<in> set fs. validator f (deref h (p f)) = None \<Longrightarrow>
     run_ref h (map (\<lambda>f. (f, p f)) fs) b = (None, fold (\<lambda>f b. b(f := p f)) fs b)"
  by (induction fs arbitrary: b) (simp_all add: assign_ref_accepted)

lemma fold_upd_apply:
  "fold (\<lambda>f b. b(f := p f)) fs b g = (if g \<in> set fs then p g else b g)"
  by (induction fs arbitrary: b) auto

lemma fold_upd_all: "fold (\<lambda>f b. b(f := p f)) field_order b = p"
  by (rule ext) (simp add: fold_upd_apply field_order_all)

lemma new_Biom_1_ref_accepts:
  assumes "\<And>f. validator f (deref h (param_ref clk cfg f)) = None"
  shows "new_Biom_1_ref clk h cfg = Inr (param_ref clk cfg)"
proof -
  have "\<forall>f \<in> set field_order. validator f (deref h (param_ref clk cfg f)) = None"
    using assms by simp
  then show ?thesis
    by (simp add: new_Biom_1_ref_def run_ref_accepted fold_upd_all)
qed

lemma new_Biom_1_ref_rejects:
  assumes "find (\<lambda>f. validator f (deref h (param_ref clk cfg f)) \<noteq> None) field_order = Some g"
  shows "\<exists>e. validator g (deref h (param_ref clk cfg g)) = Some e \<and>
    new_Biom_1_ref clk h cfg = Inl e"
proof -
  from assms have "validator g (deref h (param_ref clk cfg g)) \<noteq> None"
    by (auto simp add: find_Some_iff)
  then obtain e where e: "validator g (deref h (param_ref clk cfg g)) = Some e"
    by auto
  have "fst (run_ref h (map (\<lambda>f. (f, param_ref clk cfg f)) field_order) fresh_ref) =
      (case find (\<lambda>f. validator f (deref h (param_ref clk cfg f)) \<noteq> None) field_order of
         None \<Rightarrow> None
       | Some g \<Rightarrow> validator g (deref h (param_ref clk cfg g)))"
    by (rule run_ref_error)
  then have "fst (run_ref h (map (\<lambda>f. (f, param_ref clk cfg f)) field_order) fresh_ref) = Some e"
    by (simp only: assms e option.case)
  then have "new_Biom_1_ref clk h cfg = Inl e"
    by (auto simp add: new_Biom_1_ref_def split: prod.split option.split)
  with e show ?thesis by blast
qed

lemma getter_by_value: "getter f (by_value h b) = deref h (b f)"
  by (cases f) (simp_all add: by_value_def)

lemma deref_param_ref_loaded:
  "deref heap_loaded (param_ref clk (lift_cfg arg) f) = param_1 clk arg f"
  by (cases f)
    (simp_all add: param_ref_def supplied_ref_def default_ref_def lift_cfg_def param_1_def
      supplied_def default_1_def heap_loaded_def DEFAULT_BIOM_def)

lemma by_value_constructed:
  "by_value heap_loaded (param_ref clk (lift_cfg arg)) =
     fold (\<lambda>f. store f (param_1 clk arg f)) field_order fresh"
  by (rule biom_eqI) (simp only: getter_by_value deref_param_ref_loaded getter_constructed)

text \<open>On the heap as loaded, the construction by reference is the construction by value.\<close>

lemma new_Biom_1_ref_loaded:
  assumes "arg \<noteq> JNull"
  shows "map_sum id (by_value heap_loaded) (new_Biom_1_ref clk heap_loaded (lift_cfg arg)) =
    new_Biom_1 clk arg"
proof (cases "find (rejected arg) field_order")
  case None
  then have r: "\<not> rejected arg f" for f
    using field_order_all [of f] by (auto simp add: find_None_iff)
  then have "validator f (deref heap_loaded (param_ref clk (lift_cfg arg) f)) = None" for f
    using validator_param_1 [of f clk arg] by (simp add: deref_param_ref_loaded)
  then have "new_Biom_1_ref clk heap_loaded (lift_cfg arg) = Inr (param_ref clk (lift_cfg arg))"
    by (rule new_Biom_1_ref_accepts)
  moreover have "new_Biom_1 clk arg =
      Inr (fold (\<lambda>f. store f (param_1 clk arg f)) field_order fresh)"
    using assms r by (rule new_Biom_1_accepts)
  ultimately show ?thesis
    by (simp add: by_value_constructed)
next
  case (Some g)
  have "(\<lambda>f. validator f (deref heap_loaded (param_ref clk (lift_cfg arg) f)) \<noteq> None) =
      rejected arg"
    by (rule ext) (simp only: deref_param_ref_loaded validator_param_1)
  with Some have "find (\<lambda>f. validator f (deref heap_loaded (param_ref clk (lift_cfg arg) f))
      \<noteq> None) field_order = Some g"
    by simp
  from new_Biom_1_ref_rejects [OF this] obtain e
    where e: "validator g (deref heap_loaded (param_ref clk (lift_cfg arg) g)) = Some e"
      "new_Biom_1_ref clk heap_loaded (lift_cfg arg) = Inl e"
    by blast
  from new_Biom_1_rejects [OF Some, of clk] obtain e'
    where e': "validator g (get_prop arg (field_name g)) = Some e'" "new_Biom_1 clk arg = Inl e'"
    by blast
  from Some have "rejected arg g"
    by (auto simp add: find_Some_iff)
  then have "param_1 clk arg g = get_prop arg (field_name g)"
    by (simp add: param_1_def rejected_def)
  with e(1) e'(1) have "e = e'"
    by (simp add: deref_param_ref_loaded)
  with e(2) e'(2) show ?thesis
    by simp
qed





text \<open>
  \<^bold>\<open>C8.\<close> The frame of an assignment. A successful assignment to \<open>f\<close> makes \<open>f\<close> read as
  the assigned value and leaves every other field as it was. Whether an assignment
  succeeds, and with which exception it fails, depends on the field and the value only,
  not on the instance. On every instance reachable from a construction by the current
  version through assignments, assigning to a field the value it holds succeeds and
  leaves the instance as it was.
\<close>

theorem assignment_frame:
  "(fst (assign f v b) = None \<longrightarrow>
      getter f (snd (assign f v b)) = v \<and>
      (\<forall>g. g \<noteq> f \<longrightarrow> getter g (snd (assign f v b)) = getter g b)) \<and>
   fst (assign f v b) = fst (assign f v b') \<and>
   (new_Biom_1 clk arg = Inr t \<longrightarrow>
      assign f (getter f (assignments ops t)) (assignments ops t) = (None, assignments ops t))"
proof (intro conjI impI)
  assume "fst (assign f v b) = None"
  then have s: "snd (assign f v b) = store f v b"
    by (simp add: assign_char split: option.splits)
  show "getter f (snd (assign f v b)) = v"
    by (simp add: s getter_store)
  show "\<forall>g. g \<noteq> f \<longrightarrow> getter g (snd (assign f v b)) = getter g b"
    by (simp add: s getter_store)
next
  show "fst (assign f v b) = fst (assign f v b')"
    by (simp add: validator_state)
next
  assume "new_Biom_1 clk arg = Inr t"
  then have "valid_biom (assignments ops t)"
    by (intro valid_assignments valid_new_Biom_1)
  then have "validator f (getter f (assignments ops t)) = None"
    by (simp add: valid_biom_iff)
  then show "assign f (getter f (assignments ops t)) (assignments ops t) =
      (None, assignments ops t)"
    by (simp add: assign_accepted store_getter)
qed

theorem assignment_frame_witness:
  "fst (assign Data (JArray []) fresh) = None \<and>
   getter Data (snd (assign Data (JArray []) fresh)) = JArray [] \<and>
   getter Id (snd (assign Data (JArray []) fresh)) = getter Id fresh \<and>
   new_Biom_1 epoch JUndefined = Inr (projr (new_Biom_1 epoch JUndefined)) \<and>
   assign Type (JString ''OTU table'') (projr (new_Biom_1 epoch JUndefined)) =
     (None, projr (new_Biom_1 epoch JUndefined))"
proof -
  have h1: "fst (assign Data (JArray []) fresh) = None"
    by (simp add: set_data_def)
  have h2: "new_Biom_1 epoch JUndefined = Inr (projr (new_Biom_1 epoch JUndefined))"
    by (simp add: new_Biom_1_no_args)
  have h3: "getter Type (assignments [] (projr (new_Biom_1 epoch JUndefined))) =
      JString ''OTU table''"
    by (simp add: new_Biom_1_no_args)
  from assignment_frame [of Data "JArray []" fresh fresh epoch JUndefined
      "projr (new_Biom_1 epoch JUndefined)" "[]"] h1 h2
  have a: "getter Data (snd (assign Data (JArray []) fresh)) = JArray [] \<and>
      getter Id (snd (assign Data (JArray []) fresh)) = getter Id fresh"
    by auto
  from assignment_frame [of Type "JString ''OTU table''" fresh fresh epoch JUndefined
      "projr (new_Biom_1 epoch JUndefined)" "[]"] h2 h3
  have "assign Type (JString ''OTU table'') (projr (new_Biom_1 epoch JUndefined)) =
     (None, projr (new_Biom_1 epoch JUndefined))"
    by simp
  with a h1 h2 show ?thesis
    by simp
qed

text \<open>
  \<^bold>\<open>C9.\<close> \<open>matrix_type\<close> and the encoding of \<open>data\<close>. On every instance reachable from a
  construction by the current version through assignments, \<open>matrix_type\<close> is "sparse"
  or "dense" and \<open>data\<close> is an array. Nothing more relates the two: the setters do not
  look at the elements of \<open>data\<close>, and the example after the theorem constructs an
  instance whose \<open>matrix_type\<close> is "sparse" and whose \<open>data\<close> are two rows of two values.
\<close>

theorem reachable_matrix_type_and_data:
  "new_Biom_1 clk arg = Inr b \<Longrightarrow>
     p_matrix_type (assignments ops b) \<in> {JString ''sparse'', JString ''dense''} \<and>
     is_array (p_data (assignments ops b))"
proof -
  assume "new_Biom_1 clk arg = Inr b"
  then have v: "valid_biom (assignments ops b)"
    by (intro valid_assignments valid_new_Biom_1)
  then have "in_vocabularies (assignments ops b)"
    by (rule valid_in_vocabularies)
  then have m: "p_matrix_type (assignments ops b) \<in> {JString ''sparse'', JString ''dense''}"
    by (simp add: in_vocabularies_def MATRIX_TYPE_CV_def)
  have "validator Data (p_data (assignments ops b)) = None"
    using v valid_biom_iff [of "assignments ops b"] getter.simps(12) [of "assignments ops b"]
    by metis
  then have "is_array (p_data (assignments ops b))"
    by (simp add: validator_simps is_array_iff toString_call_array_iff split: if_splits)
  with m show ?thesis
    by simp
qed

theorem reachable_matrix_type_and_data_witness:
  "new_Biom_1 epoch JUndefined = Inr (projr (new_Biom_1 epoch JUndefined)) \<and>
   p_matrix_type (assignments [(Matrix_type, JString ''dense''), (Data, JNumber (Finite 7))]
     (projr (new_Biom_1 epoch JUndefined))) \<in> {JString ''sparse'', JString ''dense''} \<and>
   is_array (p_data (assignments [(Matrix_type, JString ''dense''), (Data, JNumber (Finite 7))]
     (projr (new_Biom_1 epoch JUndefined))))"
proof -
  have h: "new_Biom_1 epoch JUndefined = Inr (projr (new_Biom_1 epoch JUndefined))"
    by (simp add: new_Biom_1_no_args)
  from reachable_matrix_type_and_data [OF h] h show ?thesis
    by blast
qed

theorem sparse_tag_on_dense_rows:
  "map_sum id matrix_type_describes_data
     (new_Biom_1 epoch (JObject [(''matrix_type'', JString ''sparse''),
        (''data'', JArray [JArray [JNumber (Finite 1), JNumber (Finite 2)],
                           JArray [JNumber (Finite 3), JNumber (Finite 4)]])])) = Inr False"
proof -
  let ?arg = "JObject [(''matrix_type'', JString ''sparse''),
        (''data'', JArray [JArray [JNumber (Finite 1), JNumber (Finite 2)],
                           JArray [JNumber (Finite 3), JNumber (Finite 4)]])]"
  have r: "\<not> rejected ?arg f" for f
    by (cases f)
      (simp_all add: rejected_def supplied_def validator_def set_matrix_type_def set_data_def
        MATRIX_TYPE_CV_def)
  have "new_Biom_1 epoch ?arg =
      Inr (fold (\<lambda>f. store f (param_1 epoch ?arg f)) field_order fresh)"
    by (intro new_Biom_1_accepts r) simp
  then show ?thesis
    by (simp add: field_order_def param_1_def supplied_def matrix_type_describes_data_def
        sparse_encoded_def is_array_def)
qed

section \<open>The two versions\<close>

lemma common_or_comment: "f \<in> set common_fields \<or> f = Comment"
  by (cases f) (simp_all add: common_fields_def)

lemma validator_date_null: "validator Date JNull \<noteq> None"
  by (simp add: validator_simps)

text \<open>
  \<^bold>\<open>C10.\<close> The two versions agree. When a configuration supplies a value accepted by
  the validator for each of the twelve fields that both versions have, and its
  \<open>comment\<close> is missing, \<open>undefined\<close> or accepted by the validator of \<open>comment\<close>, both
  constructors return an instance, and each of the twelve fields reads the same on both,
  namely as the supplied value. The condition on \<open>comment\<close> is needed: the example
  after the theorem has a configuration with twelve valid fields and the comment 42,
  which the current version rejects and the older version accepts.
\<close>

theorem constructors_agree:
  "\<forall>f \<in> set common_fields. validator f (get_prop arg (field_name f)) = None \<Longrightarrow>
   get_prop arg ''comment'' = JUndefined \<or> validator Comment (get_prop arg ''comment'') = None \<Longrightarrow>
   \<exists>b1 b2. new_Biom_1 clk arg = Inr b1 \<and> new_Biom_2 clk arg = Inr b2 \<and>
     (\<forall>f \<in> set common_fields.
        getter f b1 = getter f b2 \<and> getter f b1 = get_prop arg (field_name f))"
proof -
  assume v: "\<forall>f \<in> set common_fields. validator f (get_prop arg (field_name f)) = None"
    and c: "get_prop arg ''comment'' = JUndefined \<or>
      validator Comment (get_prop arg ''comment'') = None"
  have "validator Id (get_prop arg (field_name Id)) = None"
    using v by (simp add: common_fields_def)
  then have n: "arg \<noteq> JNull"
    using validator_undefined [of Id] by auto
  have r: "\<not> rejected arg f" for f
    using common_or_comment [of f] v c by (auto simp add: rejected_def supplied_def)
  have s: "supplied arg f" if "f \<in> set common_fields" for f
    using that v validator_undefined [of f] validator_date_null
    by (auto simp add: supplied_def)
  have u: "get_prop arg (field_name f) \<noteq> JUndefined" if "f \<in> set common_fields" for f
    using s [OF that] by (simp add: supplied_def)
  let ?b1 = "fold (\<lambda>f. store f (param_1 clk arg f)) field_order fresh"
  let ?b2 = "fold (\<lambda>f. store f (param_2 clk arg f)) common_fields fresh"
  have 1: "new_Biom_1 clk arg = Inr ?b1"
    using n r by (intro new_Biom_1_accepts)
  have 2: "new_Biom_2 clk arg = Inr ?b2"
    using n by (rule new_Biom_2_stores)
  have "getter f ?b1 = get_prop arg (field_name f) \<and> getter f ?b2 = get_prop arg (field_name f)"
    if "f \<in> set common_fields" for f
    using getter_constructed [of f clk arg] getter_constructed_2 [OF that, of clk arg]
      s [OF that] u [OF that]
    by (simp add: param_1_def param_2_def)
  with 1 2 show ?thesis
    by auto
qed

theorem constructors_agree_witness:
  "\<exists>b1 b2. new_Biom_1 epoch (JObject example_entries) = Inr b1 \<and>
     new_Biom_2 epoch (JObject example_entries) = Inr b2 \<and>
     (\<forall>f \<in> set common_fields.
        getter f b1 = getter f b2 \<and>
        getter f b1 = get_prop (JObject example_entries) (field_name f))"
proof -
  have v: "\<forall>f \<in> set common_fields.
      validator f (get_prop (JObject example_entries) (field_name f)) = None"
    using example_entries_accepted [of _ "[]"] by simp
  have c: "get_prop (JObject example_entries) ''comment'' = JUndefined \<or>
      validator Comment (get_prop (JObject example_entries) ''comment'') = None"
    using example_entries_comment [of "[]"] by simp
  from constructors_agree [OF v c] show ?thesis .
qed

theorem constructors_differ_on_comment:
  "list_all (\<lambda>f. validator f
       (get_prop (JObject (example_entries @ [(''comment'', JNumber (Finite 42))]))
          (field_name f)) = None) common_fields \<and>
   new_Biom_1 epoch (JObject (example_entries @ [(''comment'', JNumber (Finite 42))])) =
     Inl (TypeError ''comment must be string or null'') \<and>
   map_sum id (getter Id)
     (new_Biom_2 epoch (JObject (example_entries @ [(''comment'', JNumber (Finite 42))]))) =
     Inr (JString ''table-1'')"
proof -
  let ?arg = "JObject (example_entries @ [(''comment'', JNumber (Finite 42))])"
  have a: "list_all (\<lambda>f. validator f (get_prop ?arg (field_name f)) = None) common_fields"
    using example_entries_accepted [of _ "[(''comment'', JNumber (Finite 42))]"]
    by (simp add: list_all_iff)
  have r: "rejected ?arg f \<longleftrightarrow> f = Comment" for f
    using common_or_comment [of f]
      example_entries_accepted [of f "[(''comment'', JNumber (Finite 42))]"]
      example_entries_comment [of "[(''comment'', JNumber (Finite 42))]"]
    by (auto simp add: rejected_def supplied_def validator_simps common_fields_def)
  have "find (rejected ?arg) field_order = Some Comment"
    by (simp add: r field_order_def)
  from new_Biom_1_rejects [OF this, of epoch]
  have b: "new_Biom_1 epoch ?arg = Inl (TypeError ''comment must be string or null'')"
    using example_entries_comment [of "[(''comment'', JNumber (Finite 42))]"]
    by (simp add: validator_simps)
  have "?arg \<noteq> JNull"
    by simp
  from new_Biom_2_stores [OF this, of epoch]
  have "map_sum id (getter Id) (new_Biom_2 epoch ?arg) = Inr (JString ''table-1'')"
    by (simp add: common_fields_def param_2_def example_entries_def)
  with a b show ?thesis
    by simp
qed

end
